theory Spec2Isabelle
  imports Main "HOL-Library.AList"
begin

section \<open>Strings and small JavaScript helpers\<close>

text \<open>
  Strings are character lists. \<open>split_str d s\<close> is \<^verbatim>\<open>s.split(d)\<close> for a
  one-character separator: the empty string splits into one empty segment, and
  every separator starts a new segment. \<open>join_str sep xs\<close> is
  \<^verbatim>\<open>xs.join(sep)\<close>.
\<close>

fun split_str :: "char \<Rightarrow> string \<Rightarrow> string list" where
  "split_str d [] = [[]]"
| "split_str d (c # cs) =
     (if c = d then [] # split_str d cs
      else (case split_str d cs of
              [] \<Rightarrow> [[c]]
            | p # ps \<Rightarrow> (c # p) # ps))"

fun join_str :: "string \<Rightarrow> string list \<Rightarrow> string" where
  "join_str sep [] = []"
| "join_str sep [x] = x"
| "join_str sep (x # y # ys) = x @ sep @ join_str sep (y # ys)"

text \<open>\<^verbatim>\<open>Array.prototype.pop\<close>: the last element (undefined on an empty array)
  and the array without it.\<close>

definition pop :: "'a list \<Rightarrow> 'a option \<times> 'a list" where
  "pop xs = (if xs = [] then (None, []) else (Some (last xs), butlast xs))"

text \<open>The nullish coalescing operator \<^verbatim>\<open>v ?? d\<close>, with \<open>None\<close> for undefined.\<close>

definition orElse :: "'a option \<Rightarrow> 'a \<Rightarrow> 'a" where
  "orElse v d = (case v of None \<Rightarrow> d | Some x \<Rightarrow> x)"

text \<open>A JavaScript \<^verbatim>\<open>Set\<close> of strings is a duplicate-free list in insertion
  order; \<open>set_add\<close> is \<^verbatim>\<open>Set.prototype.add\<close>.\<close>

definition set_add :: "'a \<Rightarrow> 'a list \<Rightarrow> 'a list" where
  "set_add x s = (if x \<in> set s then s else s @ [x])"

text \<open>\<^verbatim>\<open>Array.from(new Set(xs))\<close>: the first occurrence of each element, in order.\<close>

definition dedup :: "'a list \<Rightarrow> 'a list" where
  "dedup xs = fold set_add xs []"

text \<open>An attribute value of the connector SDK is a single string or an array of
  strings; \<^verbatim>\<open>[v].flat()\<close> turns either into an array.\<close>

datatype attrValue = Single string | Multiple "string list"

fun flat1 :: "attrValue \<Rightarrow> string list" where
  "flat1 (Single s) = [s]"
| "flat1 (Multiple xs) = xs"

section \<open>Name parsing and the Entitlement class (model/entitlement)\<close>

record parsedName =
  product :: string
  environment :: string
  role :: string

text \<open>\<^verbatim>\<open>filter(Boolean)\<close> keeps the non-empty strings.\<close>

definition parseName :: "string option \<Rightarrow> parsedName" where
  "parseName name =
     (let parts = orElse (map_option (\<lambda>s. filter (\<lambda>p. p \<noteq> []) (split_str CHR ''-'' s)) name) [];
          (r, parts1) = pop parts;
          (e, parts2) = pop parts1;
          (p, parts3) = pop parts2
      in \<lparr> product = orElse p [], environment = orElse e [], role = orElse r [] \<rparr>)"

record entitlementDocument =
  doc_id :: string
  doc_name :: string
  doc_requestable :: bool
  doc_source_id :: "string option"

record attributes =
  attr_id :: string
  attr_name :: string
  attr_description :: string
  attr_product :: string
  attr_environment :: "string option"
  attr_role :: string
  attr_parent :: "string option"
  attr_ids :: "string list"

record entitlement =
  ent_identity :: string
  ent_uuid :: string
  ent_type :: string
  ent_attributes :: attributes

text \<open>The constructor \<^verbatim>\<open>new Entitlement(entitlementDocument)\<close>.\<close>

definition Entitlement :: "entitlementDocument \<Rightarrow> entitlement" where
  "Entitlement entitlementDocument =
     (let pn = parseName (Some (doc_name entitlementDocument));
          parent = product pn @ ''-'' @ role pn
      in \<lparr> ent_identity = doc_name entitlementDocument,
           ent_uuid = doc_name entitlementDocument,
           ent_type = ''entitlement'',
           ent_attributes =
             \<lparr> attr_id = doc_name entitlementDocument,
               attr_name = doc_name entitlementDocument,
               attr_description = ''Proxy entitlement for '' @ environment pn @ '' environment'',
               attr_product = product pn,
               attr_environment = Some (environment pn),
               attr_role = role pn,
               attr_parent = Some parent,
               attr_ids = [doc_id entitlementDocument] \<rparr> \<rparr>)"

text \<open>Truthiness of an optional string: undefined and the empty string are falsy.\<close>

definition truthy :: "string option \<Rightarrow> bool" where
  "truthy v = (case v of None \<Rightarrow> False | Some s \<Rightarrow> s \<noteq> [])"

definition buildParent :: "string \<Rightarrow> string option \<Rightarrow> entitlement" where
  "buildParent productName roleName =
     (let name = (if truthy roleName then productName @ ''-'' @ orElse roleName [] else productName);
          description = (if truthy roleName then ''Proxy entitlement for '' @ orElse roleName [] @ '' role''
                         else ''Proxy entitlement for '' @ productName @ '' product'')
      in \<lparr> ent_identity = name,
           ent_uuid = name,
           ent_type = ''entitlement'',
           ent_attributes =
             \<lparr> attr_id = name,
               attr_name = name,
               attr_description = description,
               attr_product = productName,
               attr_environment = None,
               attr_role = orElse roleName [],
               attr_parent = (if truthy roleName then Some productName else None),
               attr_ids = [] \<rparr> \<rparr>)"

section \<open>The platform: remote calls, emitted records, errors\<close>

datatype accessRequestType = GrantAccess | RevokeAccess

datatype attributeChangeOp = OpAdd | OpSet | OpRemove

datatype searchIndex = Identities | Entitlements

text \<open>An item of \<^verbatim>\<open>identity.access\<close>; \<open>ai_source_id\<close> is \<^verbatim>\<open>x.source?.id\<close>.\<close>

record accessItem =
  ai_id :: string
  ai_name :: string
  ai_type :: string
  ai_source_id :: "string option"

record identityDocument =
  idn_id :: string
  idn_name :: string
  idn_access :: "accessItem list option"

text \<open>
  An entitlement of the proxy source as the entitlements API returns it.
  \<open>ev_attributes\<close> is \<open>None\<close> when \<^verbatim>\<open>attributes\<close> is undefined and
  \<open>Some None\<close> when \<^verbatim>\<open>attributes.ids\<close> is undefined.
\<close>

record entitlementV2025 =
  ev_name :: string
  ev_value :: string
  ev_attributes :: "string list option option"

text \<open>The account of the accounts API; \<open>ia_entitlements\<close> is
  \<^verbatim>\<open>existingAccount?.attributes?.entitlements\<close>.\<close>

record iscAccount =
  ia_identityId :: string
  ia_entitlements :: "string list option"

record accessProfile =
  ap_id :: string

record entitlementRef =
  ref_id :: string
  ref_type :: string

text \<open>The account record of \<^verbatim>\<open>StdAccountListOutput\<close>.\<close>

record account =
  acc_identity :: string
  acc_uuid :: string
  acc_id :: string
  acc_name :: string
  acc_entitlements :: "string list"

datatype stdOutput = OutAccount account | OutEntitlement entitlement

datatype error = RemoteError string | AssertionError string | TypeError string

text \<open>
  Everything a handler does to the outside world is recorded, in order, in a
  trace: each method of \<^verbatim>\<open>ISCClient\<close> it calls (with its arguments), the
  60 second \<^verbatim>\<open>setTimeout\<close>, and each \<^verbatim>\<open>res.send\<close>. Logging is not modelled.
\<close>

datatype event =
    Call_search string searchIndex
  | Call_listEntitlements string
  | Call_getEntitlementbySource string string
  | Call_patchEntitlement string
  | Call_getAccessProfileByName string
  | Call_updateAccessProfile string "entitlementRef list" bool
  | Call_createAccessProfile string string "string option" "entitlementRef list" bool
  | Call_createAccessRequest string "string list" accessRequestType string
  | Call_getIdentityByName string
  | Call_getAccountBySource string string
  | Sleep nat
  | Send stdOutput

type_synonym trace = "event list"

text \<open>
  The platform behind \<^verbatim>\<open>ISCClient\<close>: one function per method, which gets the
  trace so far (so the same call may fail once and succeed later) and the
  arguments, and returns the response or the error the promise rejects with.
\<close>

record isc =
  isc_search_entitlements :: "trace \<Rightarrow> string \<Rightarrow> error + entitlementDocument list"
  isc_search_identities :: "trace \<Rightarrow> string \<Rightarrow> error + identityDocument list"
  isc_listEntitlements :: "trace \<Rightarrow> string \<Rightarrow> error + entitlementV2025 list"
  isc_getEntitlementbySource :: "trace \<Rightarrow> string \<Rightarrow> string \<Rightarrow> error + entitlementV2025 option"
  isc_patchEntitlement :: "trace \<Rightarrow> string \<Rightarrow> error + unit"
  isc_getAccessProfileByName :: "trace \<Rightarrow> string \<Rightarrow> error + accessProfile option"
  isc_updateAccessProfile :: "trace \<Rightarrow> string \<Rightarrow> entitlementRef list \<Rightarrow> error + accessProfile"
  isc_createAccessProfile ::
    "trace \<Rightarrow> string \<Rightarrow> string \<Rightarrow> string option \<Rightarrow> entitlementRef list \<Rightarrow> bool \<Rightarrow> error + accessProfile"
  isc_createAccessRequest ::
    "trace \<Rightarrow> string \<Rightarrow> string list \<Rightarrow> accessRequestType \<Rightarrow> string \<Rightarrow> error + string"
  isc_getIdentityByName :: "trace \<Rightarrow> string \<Rightarrow> error + identityDocument option"
  isc_getAccountBySource :: "trace \<Rightarrow> string \<Rightarrow> string \<Rightarrow> error + iscAccount option"

text \<open>The connector's own source, found at start-up by \<^verbatim>\<open>findSource\<close>;
  \<open>src_owner_id\<close> is \<open>None\<close> when the source has no owner.\<close>

record sourceRec =
  src_id :: string
  src_owner_id :: "string option"

record config =
  cfg_search :: string
  cfg_createAccessProfile :: bool

text \<open>An asynchronous computation: it extends the trace and either returns a
  value or throws.\<close>

type_synonym 'a io = "trace \<Rightarrow> (error + 'a) \<times> trace"

definition return_io :: "'a \<Rightarrow> 'a io" where
  "return_io x = (\<lambda>tr. (Inr x, tr))"

definition throw_io :: "error \<Rightarrow> 'a io" where
  "throw_io e = (\<lambda>tr. (Inl e, tr))"

definition bind_io :: "'a io \<Rightarrow> ('a \<Rightarrow> 'b io) \<Rightarrow> 'b io" where
  "bind_io m f = (\<lambda>tr. case m tr of (Inl e, tr') \<Rightarrow> (Inl e, tr') | (Inr x, tr') \<Rightarrow> f x tr')"

definition catch_io :: "'a io \<Rightarrow> (error \<Rightarrow> 'a io) \<Rightarrow> 'a io" where
  "catch_io m h = (\<lambda>tr. case m tr of (Inl e, tr') \<Rightarrow> h e tr' | (Inr x, tr') \<Rightarrow> (Inr x, tr'))"

text \<open>A remote call: the platform answers from the trace before the call, and
  the call is appended to the trace.\<close>

definition call :: "event \<Rightarrow> (trace \<Rightarrow> error + 'a) \<Rightarrow> 'a io" where
  "call ev respond = (\<lambda>tr. (respond tr, tr @ [ev]))"

definition emit :: "event \<Rightarrow> unit io" where
  "emit ev = (\<lambda>tr. (Inr (), tr @ [ev]))"

section \<open>Access-request orchestration (index.ts)\<close>

text \<open>\<^verbatim>\<open>entitlement?.attributes?.ids ?? []\<close>\<close>

definition idsOrEmpty :: "entitlementV2025 option \<Rightarrow> string list" where
  "idsOrEmpty entitlement =
     (case entitlement of
        None \<Rightarrow> []
      | Some e \<Rightarrow> (case ev_attributes e of
                     None \<Rightarrow> []
                   | Some None \<Rightarrow> []
                   | Some (Some ids) \<Rightarrow> ids))"

text \<open>The loop of \<^verbatim>\<open>getSourceEntitlements\<close>, with the set \<^verbatim>\<open>accountEntitlements\<close>
  as accumulator.\<close>

fun getSourceEntitlements_loop ::
  "isc \<Rightarrow> sourceRec \<Rightarrow> string list \<Rightarrow> string list \<Rightarrow> string list io" where
  "getSourceEntitlements_loop i src [] accountEntitlements tr = (Inr accountEntitlements, tr)"
| "getSourceEntitlements_loop i src (entitlementValue # rest) accountEntitlements tr =
     (case call (Call_getEntitlementbySource entitlementValue (src_id src))
             (\<lambda>t. isc_getEntitlementbySource i t entitlementValue (src_id src)) tr of
        (Inl e, tr') \<Rightarrow> (Inl e, tr')
      | (Inr entitlement, tr') \<Rightarrow>
          getSourceEntitlements_loop i src rest
            (fold set_add (idsOrEmpty entitlement) accountEntitlements) tr')"

definition getSourceEntitlements :: "isc \<Rightarrow> sourceRec \<Rightarrow> string list \<Rightarrow> string list io" where
  "getSourceEntitlements i src entitlementValues =
     getSourceEntitlements_loop i src entitlementValues []"

text \<open>The \<^verbatim>\<open>comment\<close> of \<^verbatim>\<open>createAccessRequest\<close>.\<close>

definition requestComment :: "string list \<Rightarrow> string" where
  "requestComment entitlements = ''Proxy access request for '' @ join_str '', '' entitlements"

definition createAccessRequest ::
  "isc \<Rightarrow> sourceRec \<Rightarrow> string \<Rightarrow> string list \<Rightarrow> accessRequestType \<Rightarrow> string io" where
  "createAccessRequest i src identity entitlements requestType =
     (let comment = requestComment entitlements
      in bind_io (getSourceEntitlements i src entitlements) (\<lambda>sourceEntitlements.
           catch_io
             (call (Call_createAccessRequest identity sourceEntitlements requestType comment)
                (\<lambda>t. isc_createAccessRequest i t identity sourceEntitlements requestType comment))
             (\<lambda>error.
                bind_io (emit (Sleep 60000)) (\<lambda>_.
                  call (Call_createAccessRequest identity sourceEntitlements requestType comment)
                    (\<lambda>t. isc_createAccessRequest i t identity sourceEntitlements requestType comment)))))"

record createInput =
  ci_identity :: string
  ci_name :: "string option"
  ci_entitlements :: attrValue

definition stdAccountCreate :: "isc \<Rightarrow> sourceRec \<Rightarrow> createInput \<Rightarrow> unit io" where
  "stdAccountCreate i src input =
     (let name = orElse (ci_name input) (ci_identity input);
          entitlements = flat1 (ci_entitlements input)
      in bind_io (call (Call_getIdentityByName name) (\<lambda>t. isc_getIdentityByName i t name))
           (\<lambda>identity.
              case identity of
                None \<Rightarrow> throw_io (AssertionError (''Identity '' @ name @ '' not found''))
              | Some idn \<Rightarrow>
                  bind_io (getSourceEntitlements i src entitlements) (\<lambda>sourceEntitlements.
                  bind_io (createAccessRequest i src (idn_id idn) sourceEntitlements GrantAccess)
                    (\<lambda>response.
                       emit (Send (OutAccount
                         \<lparr> acc_identity = name, acc_uuid = name, acc_id = name,
                           acc_name = name, acc_entitlements = entitlements \<rparr>))))))"

record change =
  ch_op :: attributeChangeOp
  ch_value :: attrValue

record updateInput =
  ui_identity :: string
  ui_changes :: "change list option"

text \<open>The loop over \<^verbatim>\<open>input.changes\<close> of \<^verbatim>\<open>stdAccountUpdate\<close>; its state is
  \<^verbatim>\<open>(entitlementsAdd, entitlementsRemove)\<close>.\<close>

fun changes_loop ::
  "isc \<Rightarrow> sourceRec \<Rightarrow> string \<Rightarrow> change list \<Rightarrow> string list \<times> string list
     \<Rightarrow> (string list \<times> string list) io" where
  "changes_loop i src identityId [] st tr = (Inr st, tr)"
| "changes_loop i src identityId (c # rest) (entitlementsAdd, entitlementsRemove) tr =
     (if ch_op c = OpSet then (Inl (AssertionError ''Unsupported operation''), tr)
      else
        (let values = flat1 (ch_value c);
             operation = (if ch_op c = OpAdd then GrantAccess else RevokeAccess)
         in case createAccessRequest i src identityId values operation tr of
              (Inl e, tr') \<Rightarrow> (Inl e, tr')
            | (Inr response, tr') \<Rightarrow>
                changes_loop i src identityId rest
                  (if operation = GrantAccess
                   then (entitlementsAdd @ values, entitlementsRemove)
                   else (entitlementsAdd, entitlementsRemove @ values)) tr'))"

definition stdAccountUpdate :: "isc \<Rightarrow> sourceRec \<Rightarrow> updateInput \<Rightarrow> unit io" where
  "stdAccountUpdate i src input =
     (let name = ui_identity input
      in bind_io (call (Call_getAccountBySource name (src_id src))
                    (\<lambda>t. isc_getAccountBySource i t name (src_id src)))
           (\<lambda>existingAccount.
              case existingAccount of
                None \<Rightarrow> throw_io (AssertionError (''Account '' @ name @ '' not found''))
              | Some acct \<Rightarrow>
                  bind_io
                    (case ui_changes input of
                       None \<Rightarrow> return_io ([], [])
                     | Some changes \<Rightarrow> changes_loop i src (ia_identityId acct) changes ([], []))
                    (\<lambda>(entitlementsAdd, entitlementsRemove).
                       case ia_entitlements acct of
                         None \<Rightarrow> throw_io (TypeError ''entitlements is not iterable'')
                       | Some existing \<Rightarrow>
                           (let entitlements =
                                  dedup (filter (\<lambda>x. x \<notin> set entitlementsRemove)
                                           (existing @ entitlementsAdd))
                            in emit (Send (OutAccount
                                 \<lparr> acc_identity = name, acc_uuid = name, acc_id = name,
                                   acc_name = name, acc_entitlements = entitlements \<rparr>))))))"

section \<open>Account listing and proxy-state reconciliation (index.ts)\<close>

text \<open>
  \<^verbatim>\<open>Array.prototype.includes\<close> compares with SameValueZero. The elements of
  \<^verbatim>\<open>currentSourceEntitlements\<close> are access-item objects and the value looked for
  is a string, so both kinds of JavaScript value are needed: a string is never
  equal to an object.
\<close>

datatype jsValue = JString string | JObject accessItem

definition js_includes :: "jsValue list \<Rightarrow> jsValue \<Rightarrow> bool" where
  "js_includes xs v = (v \<in> set xs)"

text \<open>\<^verbatim>\<open>new Map(entitlements.map((x) => [x.name!, x]))\<close>: a later entry with the
  same name replaces an earlier one.\<close>

definition entitlementMap :: "entitlementV2025 list \<Rightarrow> string \<Rightarrow> entitlementV2025 option" where
  "entitlementMap entitlements = map_of (rev (map (\<lambda>x. (ev_name x, x)) entitlements))"

text \<open>
  \<^verbatim>\<open>new Set(entitlements.map((x) => x.attributes!.ids).flat())\<close>: reading
  \<^verbatim>\<open>.ids\<close> of undefined attributes throws; an undefined \<^verbatim>\<open>ids\<close> stays in
  the set as the element undefined (\<open>None\<close>).
\<close>

fun sourceEntitlementIds :: "entitlementV2025 list \<Rightarrow> error + string option list" where
  "sourceEntitlementIds [] = Inr []"
| "sourceEntitlementIds (x # xs) =
     (case ev_attributes x of
        None \<Rightarrow> Inl (TypeError ''Cannot read properties of undefined (reading ids)'')
      | Some ids \<Rightarrow>
          (case sourceEntitlementIds xs of
             Inl e \<Rightarrow> Inl e
           | Inr rest \<Rightarrow>
               Inr ((case ids of None \<Rightarrow> [None] | Some l \<Rightarrow> map Some l) @ rest)))"

text \<open>Pass 2 of the reconciliation: the loop over \<^verbatim>\<open>currentProxyEntitlements\<close>,
  with the set \<^verbatim>\<open>entitlementsAttribute\<close> as accumulator.\<close>

fun proxy_loop ::
  "(string \<Rightarrow> entitlementV2025 option) \<Rightarrow> accessItem list \<Rightarrow> accessItem list \<Rightarrow> string list
     \<Rightarrow> error + string list" where
  "proxy_loop emap currentSourceEntitlements [] entitlementsAttribute = Inr entitlementsAttribute"
| "proxy_loop emap currentSourceEntitlements (entitlement # rest) entitlementsAttribute =
     (case emap (ai_name entitlement) of
        None \<Rightarrow> proxy_loop emap currentSourceEntitlements rest entitlementsAttribute
      | Some entitlementObject \<Rightarrow>
          if ai_name entitlement \<in> set entitlementsAttribute
          then proxy_loop emap currentSourceEntitlements rest entitlementsAttribute
          else
            (case ev_attributes entitlementObject of
               None \<Rightarrow> Inl (TypeError ''Cannot read properties of undefined (reading ids)'')
             | Some None \<Rightarrow> Inl (TypeError ''Cannot read properties of undefined (reading every)'')
             | Some (Some ids) \<Rightarrow>
                 if list_all (\<lambda>x. js_includes (map JObject currentSourceEntitlements) (JString x)) ids
                 then proxy_loop emap currentSourceEntitlements rest
                        (set_add (ev_value entitlementObject) entitlementsAttribute)
                 else proxy_loop emap currentSourceEntitlements rest entitlementsAttribute))"

text \<open>The body of the loop over identities up to the emission test: both passes
  for one identity, giving the set \<^verbatim>\<open>entitlementsAttribute\<close>.\<close>

definition heldSet ::
  "(string \<Rightarrow> entitlementV2025 option) \<Rightarrow> string option list \<Rightarrow> sourceRec \<Rightarrow> identityDocument
     \<Rightarrow> error + string list" where
  "heldSet emap sourceIds src identity =
     (let access = orElse (idn_access identity) [];
          currentSourceEntitlements =
            filter (\<lambda>x. ai_type x = ''ENTITLEMENT'' \<and> Some (ai_id x) \<in> set sourceIds) access;
          currentProxyEntitlements =
            filter (\<lambda>x. ai_type x = ''ENTITLEMENT'' \<and> ai_source_id x = Some (src_id src)) access;
          pass1 = fold (\<lambda>entitlement s. set_add (ai_name entitlement) s) currentSourceEntitlements []
      in proxy_loop emap currentSourceEntitlements currentProxyEntitlements pass1)"

definition accountOf :: "identityDocument \<Rightarrow> string list \<Rightarrow> account" where
  "accountOf identity entitlementsAttribute =
     \<lparr> acc_identity = idn_name identity, acc_uuid = idn_name identity,
       acc_id = idn_name identity, acc_name = idn_name identity,
       acc_entitlements = entitlementsAttribute \<rparr>"

fun identities_loop ::
  "(string \<Rightarrow> entitlementV2025 option) \<Rightarrow> string option list \<Rightarrow> sourceRec
     \<Rightarrow> identityDocument list \<Rightarrow> unit io" where
  "identities_loop emap sourceIds src [] tr = (Inr (), tr)"
| "identities_loop emap sourceIds src (identity # rest) tr =
     (case heldSet emap sourceIds src identity of
        Inl e \<Rightarrow> (Inl e, tr)
      | Inr entitlementsAttribute \<Rightarrow>
          if length entitlementsAttribute > 0
          then identities_loop emap sourceIds src rest
                 (tr @ [Send (OutAccount (accountOf identity entitlementsAttribute))])
          else identities_loop emap sourceIds src rest tr)"

definition stdAccountList :: "isc \<Rightarrow> sourceRec \<Rightarrow> unit io" where
  "stdAccountList i src =
     bind_io (call (Call_listEntitlements (src_id src)) (\<lambda>t. isc_listEntitlements i t (src_id src)))
       (\<lambda>entitlements.
          case sourceEntitlementIds entitlements of
            Inl e \<Rightarrow> throw_io e
          | Inr sourceIds \<Rightarrow>
              bind_io (call (Call_search ''*'' Identities) (\<lambda>t. isc_search_identities i t ''*''))
                (\<lambda>identities.
                   identities_loop (entitlementMap entitlements) sourceIds src identities))"

section \<open>Entitlement listing and the hierarchy build (index.ts)\<close>

text \<open>
  \<^verbatim>\<open>products\<close> and \<^verbatim>\<open>roles\<close> are JavaScript maps: association lists in
  first-insertion order. The node objects are reached only through their map,
  so \<^verbatim>\<open>ids.push(e.id)\<close> on a node is an update of its map entry.
\<close>

definition push_id :: "string \<Rightarrow> entitlement \<Rightarrow> entitlement" where
  "push_id x node =
     node\<lparr> ent_attributes := (ent_attributes node)\<lparr> attr_ids := attr_ids (ent_attributes node) @ [x] \<rparr> \<rparr>"

type_synonym nodes = "(string \<times> entitlement) list"

text \<open>The body of the loop over \<^verbatim>\<open>entitlementSearch\<close>; the state is
  \<^verbatim>\<open>(products, roles, entitlements)\<close>.\<close>

definition processEntitlement ::
  "isc \<Rightarrow> entitlementDocument \<Rightarrow> nodes \<times> nodes \<times> entitlement list
     \<Rightarrow> (nodes \<times> nodes \<times> entitlement list) io" where
  "processEntitlement i e st =
     (case st of (products, roles, entitlements) \<Rightarrow>
       (let entitlement = Entitlement e;
            productName = attr_product (ent_attributes entitlement);
            roleName = attr_role (ent_attributes entitlement);
            roleId = productName @ ''-'' @ roleName;
            prd = (case map_of products productName of
                     None \<Rightarrow> buildParent productName None
                   | Some p \<Rightarrow> p);
            products' = AList.update productName (push_id (doc_id e) prd) products;
            rle = (case map_of roles roleId of
                     None \<Rightarrow> buildParent productName (Some roleName)
                   | Some r \<Rightarrow> r);
            roles' = AList.update roleId (push_id (doc_id e) rle) roles
        in bind_io
             (if \<not> doc_requestable e
              then call (Call_patchEntitlement (doc_id e)) (\<lambda>t. isc_patchEntitlement i t (doc_id e))
              else return_io ())
             (\<lambda>_. return_io (products', roles', entitlements @ [entitlement]))))"

fun build_loop ::
  "isc \<Rightarrow> entitlementDocument list \<Rightarrow> nodes \<times> nodes \<times> entitlement list
     \<Rightarrow> (nodes \<times> nodes \<times> entitlement list) io" where
  "build_loop i [] st tr = (Inr st, tr)"
| "build_loop i (e # rest) st tr =
     (case processEntitlement i e st tr of
        (Inl err, tr') \<Rightarrow> (Inl err, tr')
      | (Inr st', tr') \<Rightarrow> build_loop i rest st' tr')"

definition buildEntitlementRef :: "string list \<Rightarrow> entitlementRef list" where
  "buildEntitlementRef ids = map (\<lambda>x. \<lparr> ref_id = x, ref_type = ''ENTITLEMENT'' \<rparr>) ids"

text \<open>The body of the \<^verbatim>\<open>try\<close> block that synchronises one node's access profile.\<close>

definition syncAccessProfile ::
  "isc \<Rightarrow> sourceRec \<Rightarrow> string option \<Rightarrow> string \<Rightarrow> entitlement \<Rightarrow> unit io" where
  "syncAccessProfile i src originalSourceId name node =
     (let entitlementRefs = buildEntitlementRef (attr_ids (ent_attributes node))
      in bind_io (call (Call_getAccessProfileByName name) (\<lambda>t. isc_getAccessProfileByName i t name))
           (\<lambda>accessProfile.
              case accessProfile of
                Some ap \<Rightarrow>
                  bind_io (call (Call_updateAccessProfile (ap_id ap) entitlementRefs False)
                             (\<lambda>t. isc_updateAccessProfile i t (ap_id ap) entitlementRefs))
                    (\<lambda>_. return_io ())
              | None \<Rightarrow>
                  (case src_owner_id src of
                     None \<Rightarrow> throw_io (TypeError ''Cannot read properties of undefined (reading id)'')
                   | Some ownerId \<Rightarrow>
                       bind_io (call (Call_createAccessProfile name ownerId originalSourceId
                                        entitlementRefs False)
                                  (\<lambda>t. isc_createAccessProfile i t name ownerId originalSourceId
                                         entitlementRefs False))
                         (\<lambda>_. return_io ()))))"

text \<open>The loops over \<^verbatim>\<open>products\<close> and over \<^verbatim>\<open>roles\<close> have the same body:
  synchronise the access profile when configured, swallowing any error, then
  send the node.\<close>

fun nodes_loop :: "isc \<Rightarrow> config \<Rightarrow> sourceRec \<Rightarrow> string option \<Rightarrow> nodes \<Rightarrow> unit io" where
  "nodes_loop i cfg src originalSourceId [] tr = (Inr (), tr)"
| "nodes_loop i cfg src originalSourceId ((name, node) # rest) tr =
     (let tr1 = (if cfg_createAccessProfile cfg
                 then snd (catch_io (syncAccessProfile i src originalSourceId name node)
                                    (\<lambda>error. return_io ()) tr)
                 else tr)
      in nodes_loop i cfg src originalSourceId rest (tr1 @ [Send (OutEntitlement node)]))"

definition stdEntitlementList :: "isc \<Rightarrow> config \<Rightarrow> sourceRec \<Rightarrow> unit io" where
  "stdEntitlementList i cfg src =
     bind_io (call (Call_search (cfg_search cfg) Entitlements)
                (\<lambda>t. isc_search_entitlements i t (cfg_search cfg)))
       (\<lambda>entitlementSearch.
          case entitlementSearch of
            [] \<Rightarrow> throw_io (TypeError ''Cannot read properties of undefined (reading source)'')
          | first # _ \<Rightarrow>
              (let originalSourceId = doc_source_id first
               in bind_io (build_loop i entitlementSearch ([], [], []))
                    (\<lambda>(products, roles, entitlements).
                       bind_io (nodes_loop i cfg src originalSourceId products) (\<lambda>_.
                       bind_io (nodes_loop i cfg src originalSourceId roles) (\<lambda>_.
                         (\<lambda>tr. (Inr (), tr @ map (\<lambda>x. Send (OutEntitlement x)) entitlements)))))))"

section \<open>Reading traces, and the trailing segments of a name\<close>

fun isSubmission :: "event \<Rightarrow> bool" where
  "isSubmission (Call_createAccessRequest identity ids requestType comment) = True"
| "isSubmission ev = False"

fun isSend :: "event \<Rightarrow> bool" where
  "isSend (Send out) = True"
| "isSend ev = False"

text \<open>The \<open>k\<close>-th segment from the end (0 is the last), empty when there is none.\<close>

definition fromEnd :: "nat \<Rightarrow> string list \<Rightarrow> string" where
  "fromEnd k xs = (if k < length xs then xs ! (length xs - Suc k) else [])"

section \<open>Example platforms and inputs\<close>

text \<open>A platform on which every call succeeds and every lookup finds nothing.\<close>

definition isc0 :: isc where
  "isc0 =
     \<lparr> isc_search_entitlements = (\<lambda>t q. Inr []),
       isc_search_identities = (\<lambda>t q. Inr []),
       isc_listEntitlements = (\<lambda>t s. Inr []),
       isc_getEntitlementbySource = (\<lambda>t v s. Inr None),
       isc_patchEntitlement = (\<lambda>t x. Inr ()),
       isc_getAccessProfileByName = (\<lambda>t n. Inr None),
       isc_updateAccessProfile = (\<lambda>t x refs. Inr \<lparr> ap_id = x \<rparr>),
       isc_createAccessProfile = (\<lambda>t n ownr s refs r. Inr \<lparr> ap_id = n \<rparr>),
       isc_createAccessRequest = (\<lambda>t idn ids rt c. Inr ''accepted''),
       isc_getIdentityByName = (\<lambda>t n. Inr None),
       isc_getAccountBySource = (\<lambda>t n s. Inr None) \<rparr>"

definition src0 :: sourceRec where
  "src0 = \<lparr> src_id = ''proxy-source'', src_owner_id = Some ''owner-1'' \<rparr>"

definition cfg0 :: config where
  "cfg0 = \<lparr> cfg_search = ''privileged:true'', cfg_createAccessProfile = False \<rparr>"

text \<open>The proxy entitlement finance-approver of the spec's example, standing
  for the real entitlement realEntId123.\<close>

definition financeApprover :: entitlementV2025 where
  "financeApprover =
     \<lparr> ev_name = ''finance-approver'', ev_value = ''finance-approver'',
       ev_attributes = Some (Some [''realEntId123'']) \<rparr>"

definition lookupFinance :: "trace \<Rightarrow> string \<Rightarrow> string \<Rightarrow> error + entitlementV2025 option" where
  "lookupFinance t v s =
     Inr (if v = ''finance-approver'' \<and> s = ''proxy-source'' then Some financeApprover else None)"

text \<open>finance-approver resolves; the first submission is rejected and every
  submission after the delay is accepted.\<close>

definition iscRetry :: isc where
  "iscRetry = isc0
     \<lparr> isc_getEntitlementbySource := lookupFinance,
       isc_createAccessRequest :=
         (\<lambda>t idn ids rt c. if Sleep 60000 \<in> set t then Inr ''second'' else Inl (RemoteError ''rejected'')) \<rparr>"

text \<open>
  A proxy source with the role node finance-approver, standing for the raw
  entitlements e1 and e2, and their two leaf entitlements. alice holds e1 and
  e2 directly and also holds the proxy grant finance-approver; bob holds no
  entitlement at all.
\<close>

definition roleNode :: entitlementV2025 where
  "roleNode = \<lparr> ev_name = ''finance-approver'', ev_value = ''finance-approver'',
       ev_attributes = Some (Some [''e1'', ''e2'']) \<rparr>"

definition leafProd :: entitlementV2025 where
  "leafProd = \<lparr> ev_name = ''finance-prod-approver'', ev_value = ''finance-prod-approver'',
       ev_attributes = Some (Some [''e1'']) \<rparr>"

definition leafDev :: entitlementV2025 where
  "leafDev = \<lparr> ev_name = ''finance-dev-approver'', ev_value = ''finance-dev-approver'',
       ev_attributes = Some (Some [''e2'']) \<rparr>"

definition alice :: identityDocument where
  "alice = \<lparr> idn_id = ''id-alice'', idn_name = ''alice'',
       idn_access = Some
         [\<lparr> ai_id = ''e1'', ai_name = ''finance-prod-approver'', ai_type = ''ENTITLEMENT'',
            ai_source_id = Some ''finance-source'' \<rparr>,
          \<lparr> ai_id = ''e2'', ai_name = ''finance-dev-approver'', ai_type = ''ENTITLEMENT'',
            ai_source_id = Some ''finance-source'' \<rparr>,
          \<lparr> ai_id = ''p1'', ai_name = ''finance-approver'', ai_type = ''ENTITLEMENT'',
            ai_source_id = Some ''proxy-source'' \<rparr>] \<rparr>"

definition bob :: identityDocument where
  "bob = \<lparr> idn_id = ''id-bob'', idn_name = ''bob'',
       idn_access = Some
         [\<lparr> ai_id = ''r9'', ai_name = ''staff'', ai_type = ''ROLE'', ai_source_id = None \<rparr>] \<rparr>"

definition iscAccounts :: isc where
  "iscAccounts = isc0
     \<lparr> isc_search_identities := (\<lambda>t q. Inr [bob, alice]),
       isc_listEntitlements := (\<lambda>t s. Inr [roleNode, leafProd, leafDev]) \<rparr>"

definition heldExample :: "identityDocument \<Rightarrow> string list" where
  "heldExample idn = (if idn = alice then [''finance-prod-approver'', ''finance-dev-approver''] else [])"

text \<open>The create-account example of the spec: alice asks for finance-approver.\<close>

definition iscCreate :: isc where
  "iscCreate = isc0
     \<lparr> isc_getEntitlementbySource := lookupFinance,
       isc_getIdentityByName :=
         (\<lambda>t n. Inr (Some \<lparr> idn_id = ''id-1'', idn_name = n, idn_access = None \<rparr>)) \<rparr>"

definition createFinance :: createInput where
  "createFinance =
     \<lparr> ci_identity = ''alice'', ci_name = Some ''alice'',
       ci_entitlements = Multiple [''finance-approver''] \<rparr>"

definition docFinance :: entitlementDocument where
  "docFinance = \<lparr> doc_id = ''e1'', doc_name = ''finance-prod-approver'',
                   doc_requestable = False, doc_source_id = Some ''finance-source'' \<rparr>"

text \<open>update-account on an existing account.\<close>

definition existingAlice :: iscAccount where
  "existingAlice = \<lparr> ia_identityId = ''id-1'', ia_entitlements = Some [] \<rparr>"

definition iscUpdate :: isc where
  "iscUpdate = isc0
     \<lparr> isc_getEntitlementbySource := lookupFinance,
       isc_getAccountBySource := (\<lambda>t n s. Inr (Some existingAlice)) \<rparr>"

definition iscRevokeFails :: isc where
  "iscRevokeFails = iscUpdate
     \<lparr> isc_createAccessRequest :=
         (\<lambda>t idn ids rt c. if rt = RevokeAccess then Inl (RemoteError ''rejected'') else Inr ''accepted'') \<rparr>"

definition addFinance :: change where
  "addFinance = \<lparr> ch_op = OpAdd, ch_value = Single ''finance-approver'' \<rparr>"

definition removeFinance :: change where
  "removeFinance = \<lparr> ch_op = OpRemove, ch_value = Single ''finance-approver'' \<rparr>"

definition setFinance :: change where
  "setFinance = \<lparr> ch_op = OpSet, ch_value = Single ''finance-approver'' \<rparr>"

definition updateAddSet :: updateInput where
  "updateAddSet = \<lparr> ui_identity = ''alice'', ui_changes = Some [addFinance, setFinance] \<rparr>"

definition updateAddSetRemove :: updateInput where
  "updateAddSetRemove =
     \<lparr> ui_identity = ''alice'', ui_changes = Some [addFinance, setFinance, removeFinance] \<rparr>"

definition updateAddRemove :: updateInput where
  "updateAddRemove = \<lparr> ui_identity = ''alice'', ui_changes = Some [addFinance, removeFinance] \<rparr>"

text \<open>The same proxy source when the identity search finds alice only.\<close>

definition iscAlice :: isc where
  "iscAlice = iscAccounts \<lparr> isc_search_identities := (\<lambda>t q. Inr [alice]) \<rparr>"

text \<open>Entitlement documents for the hierarchy build, and platforms on which the
  requestable flip of e1 is rejected.\<close>

definition docViewer :: entitlementDocument where
  "docViewer = \<lparr> doc_id = ''e2'', doc_name = ''finance-prod-viewer'',
                  doc_requestable = False, doc_source_id = Some ''finance-source'' \<rparr>"

definition docAuditor :: entitlementDocument where
  "docAuditor = \<lparr> doc_id = ''e3'', doc_name = ''finance-prod-auditor'',
                   doc_requestable = True, doc_source_id = Some ''finance-source'' \<rparr>"

definition patchFailsE1 :: "trace \<Rightarrow> string \<Rightarrow> error + unit" where
  "patchFailsE1 t x = (if x = ''e1'' then Inl (RemoteError ''patch rejected'') else Inr ())"

definition iscPatchFails :: isc where
  "iscPatchFails = isc0
     \<lparr> isc_search_entitlements := (\<lambda>t q. Inr [docFinance, docViewer]),
       isc_patchEntitlement := patchFailsE1 \<rparr>"

definition iscPatchFailsSecond :: isc where
  "iscPatchFailsSecond = isc0
     \<lparr> isc_search_entitlements := (\<lambda>t q. Inr [docAuditor, docFinance, docViewer]),
       isc_patchEntitlement := patchFailsE1 \<rparr>"

section \<open>Lemmas about splitting, parsing and submission\<close>

lemma split_str_ne: "split_str d s \<noteq> []"
  by (induction s) (auto split: list.splits)

lemma split_str_free: "d \<notin> set s \<Longrightarrow> split_str d s = [s]"
  by (induction s) auto

lemma split_str_append:
  "d \<notin> set s \<Longrightarrow> split_str d (s @ d # t) = s # split_str d t"
  by (induction s) auto

lemma split_join:
  "segs \<noteq> [] \<Longrightarrow> \<forall>s \<in> set segs. d \<notin> set s \<Longrightarrow> split_str d (join_str [d] segs) = segs"
  by (induction "[d]" segs rule: join_str.induct) (auto simp: split_str_free split_str_append)

lemma filter_split_join:
  assumes "\<forall>s \<in> set segs. d \<notin> set s"
  shows "filter (\<lambda>p. p \<noteq> []) (split_str d (join_str [d] segs)) = filter (\<lambda>p. p \<noteq> []) segs"
proof (cases "segs = []")
  case True
  then show ?thesis by simp
next
  case False
  then show ?thesis using assms by (simp add: split_join)
qed

lemma pops_fromEnd:
  "(let (r, parts1) = pop ps; (e, parts2) = pop parts1; (p, parts3) = pop parts2
    in \<lparr> product = orElse p [], environment = orElse e [], role = orElse r [] \<rparr>)
   = \<lparr> product = fromEnd 2 ps, environment = fromEnd 1 ps, role = fromEnd 0 ps \<rparr>"
proof (cases ps rule: rev_cases)
  case Nil
  then show ?thesis by (simp add: pop_def orElse_def fromEnd_def)
next
  case (snoc ys r)
  note s1 = snoc
  show ?thesis
  proof (cases ys rule: rev_cases)
    case Nil
    with s1 show ?thesis by (simp add: pop_def orElse_def fromEnd_def)
  next
    case (snoc zs e)
    note s2 = snoc
    show ?thesis
    proof (cases zs rule: rev_cases)
      case Nil
      with s1 s2 show ?thesis by (simp add: pop_def orElse_def fromEnd_def)
    next
      case (snoc ws p)
      with s1 s2 show ?thesis
        by (simp add: pop_def orElse_def fromEnd_def nth_append butlast_append)
    qed
  qed
qed

lemma parseName_parts:
  "parseName (Some s) =
     (let ps = filter (\<lambda>p. p \<noteq> []) (split_str CHR ''-'' s)
      in \<lparr> product = fromEnd 2 ps, environment = fromEnd 1 ps, role = fromEnd 0 ps \<rparr>)"
  unfolding parseName_def using pops_fromEnd
  by (simp add: orElse_def Let_def)

lemma createAccessRequest_cases:
  "(case getSourceEntitlements i src entitlements tr of
      (Inl err, tr0) \<Rightarrow> createAccessRequest i src identity entitlements requestType tr = (Inl err, tr0)
    | (Inr ids, tr0) \<Rightarrow>
        (let submit = Call_createAccessRequest identity ids requestType (requestComment entitlements);
             answer = (\<lambda>t. isc_createAccessRequest i t identity ids requestType (requestComment entitlements))
         in case answer tr0 of
              Inr response \<Rightarrow>
                createAccessRequest i src identity entitlements requestType tr
                  = (Inr response, tr0 @ [submit])
            | Inl err \<Rightarrow>
                createAccessRequest i src identity entitlements requestType tr
                  = (answer (tr0 @ [submit, Sleep 60000]), tr0 @ [submit, Sleep 60000, submit])))"
  by (auto simp: createAccessRequest_def bind_io_def catch_io_def call_def emit_def Let_def
           split: prod.splits sum.splits)

lemma parseName_three:
  assumes "CHR ''-'' \<notin> set P" "CHR ''-'' \<notin> set E" "CHR ''-'' \<notin> set R" "E \<noteq> []" "R \<noteq> []"
  shows "parseName (Some (P @ ''-'' @ E @ ''-'' @ R)) = \<lparr> product = P, environment = E, role = R \<rparr>"
proof -
  have j: "P @ ''-'' @ E @ ''-'' @ R = join_str ''-'' [P, E, R]" by simp
  have "\<forall>s \<in> set [P, E, R]. CHR ''-'' \<notin> set s" using assms by simp
  from filter_split_join [OF this] assms show ?thesis
    unfolding j by (simp add: parseName_parts fromEnd_def)
qed

lemma identities_loop_sends:
  assumes "\<forall>idn \<in> set identities. heldSet emap sourceIds src idn = Inr (held idn)"
  shows "identities_loop emap sourceIds src identities tr =
           (Inr (), tr @ map (\<lambda>idn. Send (OutAccount (accountOf idn (held idn))))
                          (filter (\<lambda>idn. held idn \<noteq> []) identities))"
  using assms by (induction identities arbitrary: tr) auto

lemma getSourceEntitlements_loop_trace:
  "getSourceEntitlements_loop i src vs acc tr = (r, tr') \<Longrightarrow>
     \<exists>evs. tr' = tr @ evs \<and> (\<forall>ev \<in> set evs. \<not> isSubmission ev \<and> \<not> isSend ev)"
proof (induction vs arbitrary: acc tr)
  case Nil
  then show ?case by simp
next
  case (Cons v vs)
  show ?case
  proof (cases "isc_getEntitlementbySource i tr v (src_id src)")
    case (Inl e)
    with Cons.prems show ?thesis by (auto simp: call_def)
  next
    case (Inr ent)
    with Cons.prems
    have "getSourceEntitlements_loop i src vs (fold set_add (idsOrEmpty ent) acc)
            (tr @ [Call_getEntitlementbySource v (src_id src)]) = (r, tr')"
      by (simp add: call_def)
    from Cons.IH [OF this] show ?thesis by auto
  qed
qed

lemma createAccessRequest_trace:
  assumes "createAccessRequest i src identity entitlements requestType tr = (r, tr')"
  shows "\<exists>evs. tr' = tr @ evs \<and> (\<forall>ev \<in> set evs. \<not> isSend ev)
           \<and> ((\<exists>response. r = Inr response) \<longrightarrow> filter isSubmission evs \<noteq> [])"
proof -
  obtain r0 tr0 where g: "getSourceEntitlements i src entitlements tr = (r0, tr0)"
    by (cases "getSourceEntitlements i src entitlements tr")
  then obtain evs0 where e0: "tr0 = tr @ evs0" "\<forall>ev \<in> set evs0. \<not> isSubmission ev \<and> \<not> isSend ev"
    using getSourceEntitlements_loop_trace unfolding getSourceEntitlements_def by blast
  show ?thesis
    using createAccessRequest_cases [where i=i and src=src and entitlements=entitlements and tr=tr
        and identity=identity and requestType=requestType] g assms e0
    by (auto simp: Let_def split: sum.splits)
qed

lemma changes_loop_trace:
  "changes_loop i src identityId cs st tr = (r, tr') \<Longrightarrow>
     \<exists>evs. tr' = tr @ evs \<and> (\<forall>ev \<in> set evs. \<not> isSend ev)
          \<and> ((\<exists>st'. r = Inr st') \<longrightarrow> length cs \<le> length (filter isSubmission evs))"
proof (induction cs arbitrary: st tr)
  case Nil
  then show ?case by simp
next
  case (Cons c cs)
  obtain a b where st: "st = (a, b)" by (cases st)
  show ?case
  proof (cases "ch_op c = OpSet")
    case True
    with Cons.prems st show ?thesis by auto
  next
    case False
    let ?vals = "flat1 (ch_value c)"
    let ?operation = "if ch_op c = OpAdd then GrantAccess else RevokeAccess"
    obtain r1 tr1 where c1: "createAccessRequest i src identityId ?vals ?operation tr = (r1, tr1)"
      by (cases "createAccessRequest i src identityId ?vals ?operation tr")
    from createAccessRequest_trace [OF c1]
    obtain evs1 where e1: "tr1 = tr @ evs1" "\<forall>ev \<in> set evs1. \<not> isSend ev"
        "(\<exists>response. r1 = Inr response) \<longrightarrow> filter isSubmission evs1 \<noteq> []"
      by blast
    show ?thesis
    proof (cases r1)
      case (Inl e)
      with Cons.prems st False c1 e1 show ?thesis by (auto simp: Let_def)
    next
      case (Inr response)
      with Cons.prems st False c1
      obtain st1 where "changes_loop i src identityId cs st1 tr1 = (r, tr')"
        by (auto simp: Let_def split: if_splits)
      from Cons.IH [OF this]
      obtain evs2 where e2: "tr' = tr1 @ evs2" "\<forall>ev \<in> set evs2. \<not> isSend ev"
        "(\<exists>st'. r = Inr st') \<longrightarrow> length cs \<le> length (filter isSubmission evs2)"
        by blast
      have A: "tr' = tr @ (evs1 @ evs2)" using e1(1) e2(1) by simp
      have B: "\<forall>ev \<in> set (evs1 @ evs2). \<not> isSend ev" using e1(2) e2(2) by auto
      have C: "(\<exists>st'. r = Inr st') \<longrightarrow>
                 length (c # cs) \<le> length (filter isSubmission (evs1 @ evs2))"
      proof
        assume "\<exists>st'. r = Inr st'"
        with e2(3) have "length cs \<le> length (filter isSubmission evs2)" by blast
        moreover have "0 < length (filter isSubmission evs1)" using e1(3) Inr by simp
        ultimately show "length (c # cs) \<le> length (filter isSubmission (evs1 @ evs2))"
          by (simp del: length_greater_0_conv)
      qed
      from A B C show ?thesis by blast
    qed
  qed
qed

lemma changes_loop_append:
  "changes_loop i src identityId (pre @ rest) st tr =
     (case changes_loop i src identityId pre st tr of
        (Inl e, tr') \<Rightarrow> (Inl e, tr')
      | (Inr st', tr') \<Rightarrow> changes_loop i src identityId rest st' tr')"
proof (induction pre arbitrary: st tr)
  case Nil
  then show ?case by simp
next
  case (Cons c cs)
  obtain a b where st: "st = (a, b)" by (cases st)
  show ?case unfolding st
    by (simp add: Cons.IH Let_def split: prod.splits sum.splits)
qed


lemma processEntitlement_trace:
  "snd (processEntitlement i e st tr) =
     (if doc_requestable e then tr else tr @ [Call_patchEntitlement (doc_id e)])"
  by (cases st)
     (auto simp: processEntitlement_def Let_def bind_io_def call_def return_io_def
           split: sum.splits prod.splits)

lemma build_loop_patches:
  "build_loop i es st tr = (Inr st', tr') \<Longrightarrow>
     tr' = tr @ map (\<lambda>e. Call_patchEntitlement (doc_id e)) (filter (\<lambda>e. \<not> doc_requestable e) es)"
proof (induction es arbitrary: st tr)
  case Nil
  then show ?case by simp
next
  case (Cons e es)
  obtain r1 tr1 where p: "processEntitlement i e st tr = (r1, tr1)"
    by (cases "processEntitlement i e st tr")
  with processEntitlement_trace [of i e st tr]
  have t1: "tr1 = (if doc_requestable e then tr else tr @ [Call_patchEntitlement (doc_id e)])"
    by simp
  from Cons.prems p obtain st1 where r1: "r1 = Inr st1" and l: "build_loop i es st1 tr1 = (Inr st', tr')"
    by (cases r1) auto
  from Cons.IH [OF l] t1 show ?case by simp
qed

lemma build_loop_append:
  "build_loop i (pre @ rest) st tr =
     (case build_loop i pre st tr of
        (Inl err, tr') \<Rightarrow> (Inl err, tr')
      | (Inr st', tr') \<Rightarrow> build_loop i rest st' tr')"
  by (induction pre arbitrary: st tr) (simp_all split: prod.splits sum.splits)

lemma processEntitlement_fails:
  "\<not> doc_requestable e \<Longrightarrow> isc_patchEntitlement i tr (doc_id e) = Inl err \<Longrightarrow>
     processEntitlement i e st tr = (Inl err, tr @ [Call_patchEntitlement (doc_id e)])"
  by (cases st) (simp add: processEntitlement_def Let_def bind_io_def call_def)

section \<open>Name parsing\<close>

text \<open>
  Claim C9. Name parsing drops the empty hyphen-delimited segments before it
  takes the trailing three: for a name written as any sequence of hyphen-free
  segments joined by hyphens, the role, environment and product are the last,
  second-to-last and third-to-last of the non-empty segments (the empty string
  where there is none), so leading, trailing and repeated hyphens are
  collapsed: the name parses as the join of its non-empty segments does. In
  particular a--b parses as a-b does and x- has role x with empty environment
  and product. Parsing is a total function: it returns a result for every
  name, and for an absent name too.
\<close>

theorem parseName_discards_empty_segments:
  assumes "\<forall>s \<in> set segs. CHR ''-'' \<notin> set s"
  shows "parseName (Some (join_str ''-'' segs)) =
           \<lparr> product = fromEnd 2 (filter (\<lambda>s. s \<noteq> []) segs),
             environment = fromEnd 1 (filter (\<lambda>s. s \<noteq> []) segs),
             role = fromEnd 0 (filter (\<lambda>s. s \<noteq> []) segs) \<rparr>
       \<and> parseName (Some (join_str ''-'' segs)) =
           parseName (Some (join_str ''-'' (filter (\<lambda>s. s \<noteq> []) segs)))
       \<and> parseName (Some ''a--b'') = parseName (Some ''a-b'')
       \<and> parseName (Some ''x-'') = \<lparr> product = [], environment = [], role = ''x'' \<rparr>
       \<and> parseName None = \<lparr> product = [], environment = [], role = [] \<rparr>"
proof -
  let ?ne = "filter (\<lambda>s. s \<noteq> []) segs"
  have a: "parseName (Some (join_str ''-'' segs)) =
           \<lparr> product = fromEnd 2 ?ne, environment = fromEnd 1 ?ne, role = fromEnd 0 ?ne \<rparr>"
    using filter_split_join [OF assms] by (simp add: parseName_parts Let_def)
  have "\<forall>s \<in> set ?ne. CHR ''-'' \<notin> set s" using assms by simp
  from filter_split_join [OF this]
  have b: "parseName (Some (join_str ''-'' ?ne)) =
           \<lparr> product = fromEnd 2 ?ne, environment = fromEnd 1 ?ne, role = fromEnd 0 ?ne \<rparr>"
    by (simp add: parseName_parts Let_def)
  have c: "parseName (Some ''a--b'') = parseName (Some ''a-b'')"
    by (simp add: parseName_parts fromEnd_def)
  have d: "parseName (Some ''x-'') = \<lparr> product = [], environment = [], role = ''x'' \<rparr>"
    by (simp add: parseName_parts fromEnd_def)
  have e: "parseName None = \<lparr> product = [], environment = [], role = [] \<rparr>"
    by (simp add: parseName_def orElse_def pop_def)
  from a b c d e show ?thesis by simp
qed

text \<open>The theorem at the segments a, empty, b, that is at the name a--b.\<close>

theorem parseName_discards_empty_segments_witness:
  "parseName (Some (join_str ''-'' [''a'', [], ''b''])) =
     \<lparr> product = [], environment = ''a'', role = ''b'' \<rparr>
   \<and> parseName (Some (join_str ''-'' [''a'', [], ''b''])) = parseName (Some ''a-b'')"
proof -
  have h: "\<forall>s \<in> set [''a'', [], ''b'']. CHR ''-'' \<notin> set s" by simp
  from parseName_discards_empty_segments [OF h] show ?thesis
    by (simp add: fromEnd_def parseName_parts)
qed

section \<open>Access-request retry\<close>

text \<open>
  Claim C4. Once the requested names are resolved to the ids \<open>ids\<close>, the
  request is submitted. If the first submission is accepted, its response is
  returned and nothing else happens. If the first submission fails, for
  whatever reason, the orchestrator waits 60000 ms once and submits the same
  request once more; the outcome of that second call, response or error, is
  the outcome of the whole operation, and the first error is dropped. The
  trace shows at most two submissions and at most one delay.
\<close>

theorem createAccessRequest_retry_once:
  assumes "getSourceEntitlements i src entitlements tr = (Inr ids, tr0)"
  shows "let submit = Call_createAccessRequest identity ids requestType (requestComment entitlements);
             answer = (\<lambda>t. isc_createAccessRequest i t identity ids requestType (requestComment entitlements))
         in (\<forall>response. answer tr0 = Inr response \<longrightarrow>
               createAccessRequest i src identity entitlements requestType tr
                 = (Inr response, tr0 @ [submit]))
          \<and> (\<forall>err. answer tr0 = Inl err \<longrightarrow>
               createAccessRequest i src identity entitlements requestType tr
                 = (answer (tr0 @ [submit, Sleep 60000]), tr0 @ [submit, Sleep 60000, submit]))"
  using createAccessRequest_cases [where i=i and src=src and entitlements=entitlements and tr=tr
      and identity=identity and requestType=requestType] assms
  by (simp add: Let_def split: sum.splits)

text \<open>The theorem on a platform that rejects the first submission and accepts
  the second.\<close>

theorem createAccessRequest_retry_once_witness:
  "createAccessRequest iscRetry src0 ''id-1'' [''finance-approver''] GrantAccess []
     = (Inr ''second'',
        [Call_getEntitlementbySource ''finance-approver'' ''proxy-source'',
         Call_createAccessRequest ''id-1'' [''realEntId123''] GrantAccess
           ''Proxy access request for finance-approver'',
         Sleep 60000,
         Call_createAccessRequest ''id-1'' [''realEntId123''] GrantAccess
           ''Proxy access request for finance-approver''])"
proof -
  have res: "getSourceEntitlements iscRetry src0 [''finance-approver''] []
               = (Inr [''realEntId123''],
                  [Call_getEntitlementbySource ''finance-approver'' ''proxy-source''])"
    by (simp add: getSourceEntitlements_def call_def iscRetry_def isc0_def src0_def
          lookupFinance_def financeApprover_def idsOrEmpty_def set_add_def)
  show ?thesis
    using createAccessRequest_retry_once [OF res, of "''id-1''" GrantAccess]
    by (simp add: Let_def iscRetry_def isc0_def requestComment_def)
qed

section \<open>Entitlement listing on an empty search result\<close>

text \<open>
  Claim C8. When the configured entitlement search returns an empty result,
  list-entitlements fails at once: reading \<^verbatim>\<open>entitlementSearch[0].source\<close>
  throws a TypeError, after the search call and before anything is sent.
\<close>

theorem stdEntitlementList_empty_search_fails:
  assumes "isc_search_entitlements i tr (cfg_search cfg) = Inr []"
  shows "stdEntitlementList i cfg src tr =
           (Inl (TypeError ''Cannot read properties of undefined (reading source)''),
            tr @ [Call_search (cfg_search cfg) Entitlements])"
  using assms by (simp add: stdEntitlementList_def bind_io_def call_def throw_io_def)

text \<open>The theorem on the platform whose search finds nothing.\<close>

theorem stdEntitlementList_empty_search_fails_witness:
  "isc_search_entitlements isc0 [] (cfg_search cfg0) = Inr []
   \<and> stdEntitlementList isc0 cfg0 src0 [] =
           (Inl (TypeError ''Cannot read properties of undefined (reading source)''),
            [Call_search ''privileged:true'' Entitlements])"
proof -
  have h: "isc_search_entitlements isc0 [] (cfg_search cfg0) = Inr []"
    by (simp add: isc0_def)
  from stdEntitlementList_empty_search_fails [OF h, of src0] h show ?thesis
    by (simp add: cfg0_def)
qed

section \<open>Emission of account records\<close>

text \<open>
  Claim C7. list-accounts emits an account record for a subject if and only if
  the subject's reconciled held set is not empty: when both remote reads
  succeed and the reconciliation of every subject yields a held set, the
  records sent are exactly those of the subjects with a non-empty held set, in
  the order of the search result, each carrying that held set; a subject with
  an empty held set gets no record.
\<close>

theorem stdAccountList_emits_iff_held:
  assumes "isc_listEntitlements i tr (src_id src) = Inr entitlements"
    and "sourceEntitlementIds entitlements = Inr sourceIds"
    and "isc_search_identities i (tr @ [Call_listEntitlements (src_id src)]) ''*'' = Inr identities"
    and "\<forall>idn \<in> set identities.
           heldSet (entitlementMap entitlements) sourceIds src idn = Inr (held idn)"
  shows "stdAccountList i src tr =
           (Inr (),
            tr @ [Call_listEntitlements (src_id src), Call_search ''*'' Identities]
               @ map (\<lambda>idn. Send (OutAccount (accountOf idn (held idn))))
                   (filter (\<lambda>idn. held idn \<noteq> []) identities))"
  using assms(1-3) identities_loop_sends [OF assms(4)]
  by (simp add: stdAccountList_def bind_io_def call_def)

text \<open>The theorem on the example platform: bob's held set is empty and only
  alice's record is sent.\<close>

theorem stdAccountList_emits_iff_held_witness:
  "stdAccountList iscAccounts src0 [] =
     (Inr (),
      [Call_listEntitlements ''proxy-source'', Call_search ''*'' Identities,
       Send (OutAccount (accountOf alice [''finance-prod-approver'', ''finance-dev-approver'']))])"
proof -
  have l: "isc_listEntitlements iscAccounts [] (src_id src0) = Inr [roleNode, leafProd, leafDev]"
    by (simp add: iscAccounts_def)
  have s: "sourceEntitlementIds [roleNode, leafProd, leafDev]
             = Inr (map Some [''e1'', ''e2'', ''e1'', ''e2''])"
    by (simp add: roleNode_def leafProd_def leafDev_def)
  have q: "isc_search_identities iscAccounts ([] @ [Call_listEntitlements (src_id src0)]) ''*''
             = Inr [bob, alice]"
    by (simp add: iscAccounts_def)
  have ne: "bob \<noteq> alice" by (simp add: bob_def alice_def)
  have hb: "heldSet (entitlementMap [roleNode, leafProd, leafDev])
              (map Some [''e1'', ''e2'', ''e1'', ''e2'']) src0 bob = Inr []"
    by (simp add: heldSet_def bob_def orElse_def)
  have ha: "heldSet (entitlementMap [roleNode, leafProd, leafDev])
              (map Some [''e1'', ''e2'', ''e1'', ''e2'']) src0 alice
              = Inr [''finance-prod-approver'', ''finance-dev-approver'']"
    by (simp add: heldSet_def alice_def orElse_def src0_def set_add_def entitlementMap_def
          roleNode_def leafProd_def leafDev_def js_includes_def)
  have h: "\<forall>idn \<in> set [bob, alice].
             heldSet (entitlementMap [roleNode, leafProd, leafDev])
               (map Some [''e1'', ''e2'', ''e1'', ''e2'']) src0 idn = Inr (heldExample idn)"
    using ha hb ne by (simp add: heldExample_def)
  from stdAccountList_emits_iff_held [OF l s q h] ne show ?thesis
    by (simp add: heldExample_def src0_def)
qed

section \<open>The hierarchy of a single entitlement\<close>

text \<open>
  Claim C2, as amended. For an entitlement named P-E-R, with hyphen-free
  segments and non-empty E and R, that is already requestable or whose
  requestable flip succeeds, building the hierarchy from exactly that
  entitlement yields one product node named P and one role node named P-R,
  each with the entitlement's id as its only underlying id. The name parses
  into product P, environment E and role R; and for any name made of non-empty
  hyphen-free segments the role is the last segment, the environment the
  second-to-last and the product the third-to-last, with the empty string for
  each part that is missing when there are fewer than three segments.
\<close>

theorem single_entitlement_hierarchy:
  assumes "CHR ''-'' \<notin> set P" "CHR ''-'' \<notin> set E" "CHR ''-'' \<notin> set R" "E \<noteq> []" "R \<noteq> []"
    and "doc_name e = P @ ''-'' @ E @ ''-'' @ R"
    and "doc_requestable e \<or> isc_patchEntitlement i tr (doc_id e) = Inr ()"
    and "\<forall>s \<in> set segs. s \<noteq> [] \<and> CHR ''-'' \<notin> set s"
  shows "(\<exists>productNode roleNode.
            fst (build_loop i [e] ([], [], []) tr) =
              Inr ([(P, productNode)], [(P @ ''-'' @ R, roleNode)], [Entitlement e])
          \<and> attr_name (ent_attributes productNode) = P
          \<and> attr_ids (ent_attributes productNode) = [doc_id e]
          \<and> attr_name (ent_attributes roleNode) = P @ ''-'' @ R
          \<and> attr_ids (ent_attributes roleNode) = [doc_id e])
       \<and> parseName (Some (doc_name e)) = \<lparr> product = P, environment = E, role = R \<rparr>
       \<and> parseName (Some (join_str ''-'' segs)) =
           \<lparr> product = fromEnd 2 segs, environment = fromEnd 1 segs, role = fromEnd 0 segs \<rparr>"
proof -
  have p: "parseName (Some (doc_name e)) = \<lparr> product = P, environment = E, role = R \<rparr>"
    using parseName_three [OF assms(1-5)] assms(6) by simp
  have f: "filter (\<lambda>s. s \<noteq> []) segs = segs" using assms(8) by (induction segs) auto
  have "\<forall>s \<in> set segs. CHR ''-'' \<notin> set s" using assms(8) by simp
  from filter_split_join [OF this] f
  have q: "parseName (Some (join_str ''-'' segs)) =
           \<lparr> product = fromEnd 2 segs, environment = fromEnd 1 segs, role = fromEnd 0 segs \<rparr>"
    by (simp add: parseName_parts Let_def)
  have b: "fst (build_loop i [e] ([], [], []) tr) =
             Inr ([(P, push_id (doc_id e) (buildParent P None))],
                  [(P @ ''-'' @ R, push_id (doc_id e) (buildParent P (Some R)))],
                  [Entitlement e])"
    using assms(7) p
    by (auto simp: processEntitlement_def Entitlement_def Let_def bind_io_def call_def return_io_def)
  have n: "attr_name (ent_attributes (push_id (doc_id e) (buildParent P None))) = P"
          "attr_ids (ent_attributes (push_id (doc_id e) (buildParent P None))) = [doc_id e]"
          "attr_name (ent_attributes (push_id (doc_id e) (buildParent P (Some R)))) = P @ ''-'' @ R"
          "attr_ids (ent_attributes (push_id (doc_id e) (buildParent P (Some R)))) = [doc_id e]"
    using assms(5) by (simp_all add: push_id_def buildParent_def truthy_def orElse_def Let_def)
  from b n p q show ?thesis by blast
qed

text \<open>The theorem at the entitlement finance-prod-approver with id e1, and at
  the two-segment name prod-approver.\<close>

theorem single_entitlement_hierarchy_witness:
  "(\<exists>productNode roleNode.
      fst (build_loop isc0 [docFinance] ([], [], []) []) =
        Inr ([(''finance'', productNode)], [(''finance-approver'', roleNode)], [Entitlement docFinance])
    \<and> attr_name (ent_attributes productNode) = ''finance''
    \<and> attr_ids (ent_attributes productNode) = [''e1'']
    \<and> attr_name (ent_attributes roleNode) = ''finance-approver''
    \<and> attr_ids (ent_attributes roleNode) = [''e1''])
   \<and> parseName (Some ''finance-prod-approver'') =
       \<lparr> product = ''finance'', environment = ''prod'', role = ''approver'' \<rparr>
   \<and> parseName (Some ''prod-approver'') =
       \<lparr> product = [], environment = ''prod'', role = ''approver'' \<rparr>"
proof -
  have n: "doc_name docFinance = ''finance'' @ ''-'' @ ''prod'' @ ''-'' @ ''approver''"
    by (simp add: docFinance_def)
  have r: "doc_requestable docFinance \<or> isc_patchEntitlement isc0 [] (doc_id docFinance) = Inr ()"
    by (simp add: isc0_def)
  have s: "\<forall>s \<in> set [''prod'', ''approver'']. s \<noteq> [] \<and> CHR ''-'' \<notin> set s" by simp
  have d: "doc_id docFinance = ''e1''" "doc_name docFinance = ''finance-prod-approver''"
    by (simp_all add: docFinance_def)
  from single_entitlement_hierarchy [OF _ _ _ _ _ n r s]
  show ?thesis by (simp add: fromEnd_def d)
qed

text \<open>
  The claim as stated fails on the entitlement finance-prod-approver with id
  e1, not yet requestable, when its requestable flip is rejected: the build
  ends with that error at the patch call and yields no product node and no
  role node.
\<close>

theorem single_entitlement_flip_rejected_counterexample:
  "build_loop iscPatchFails [docFinance] ([], [], []) [] =
     (Inl (RemoteError ''patch rejected''), [Call_patchEntitlement ''e1''])"
  by (simp add: processEntitlement_def Let_def bind_io_def call_def
        iscPatchFails_def patchFailsE1_def docFinance_def)

section \<open>Rejection of a Set change\<close>

text \<open>
  Claim C5, as amended. For every update-account invocation whose change list
  contains a change with op = Set, the invocation fails and sends no account
  record. The rejection happens when the loop reaches the first Set change,
  not before the first network call: the account lookup and the lookups and
  submissions of the changes before the Set have been made by then. When the
  account is found and the changes before the first Set are processed
  successfully, the invocation fails with the error Unsupported operation and
  its trace is exactly the trace up to the end of those earlier changes: no
  remote lookup or submission is made for the Set change or for any change
  after it.
\<close>

theorem set_change_rejected_at_its_turn:
  assumes "ui_changes input = Some (pre @ c # post)" and "ch_op c = OpSet"
  shows "(\<exists>err tr'. stdAccountUpdate i src input tr = (Inl err, tr')
            \<and> (\<forall>ev \<in> set (drop (length tr) tr'). \<not> isSend ev))
       \<and> (\<forall>acct st tr1.
            isc_getAccountBySource i tr (ui_identity input) (src_id src) = Inr (Some acct) \<longrightarrow>
            changes_loop i src (ia_identityId acct) pre ([], [])
              (tr @ [Call_getAccountBySource (ui_identity input) (src_id src)]) = (Inr st, tr1) \<longrightarrow>
            stdAccountUpdate i src input tr = (Inl (AssertionError ''Unsupported operation''), tr1))"
proof -
  let ?lookup = "Call_getAccountBySource (ui_identity input) (src_id src)"
  have step: "changes_loop i src identityId (c # post) st t
                = (Inl (AssertionError ''Unsupported operation''), t)" for identityId st t
    using assms(2) by (cases st) simp
  have second: "stdAccountUpdate i src input tr = (Inl (AssertionError ''Unsupported operation''), tr1)"
    if a: "isc_getAccountBySource i tr (ui_identity input) (src_id src) = Inr (Some acct)"
    and l: "changes_loop i src (ia_identityId acct) pre ([], []) (tr @ [?lookup]) = (Inr st, tr1)"
    for acct st tr1
    using a l assms(1) step
    by (simp add: stdAccountUpdate_def bind_io_def call_def changes_loop_append Let_def)
  have first: "\<exists>err tr'. stdAccountUpdate i src input tr = (Inl err, tr')
                 \<and> (\<forall>ev \<in> set (drop (length tr) tr'). \<not> isSend ev)"
  proof (cases "isc_getAccountBySource i tr (ui_identity input) (src_id src)")
    case (Inl e)
    then show ?thesis
      by (simp add: stdAccountUpdate_def bind_io_def call_def Let_def)
  next
    case (Inr found)
    show ?thesis
    proof (cases found)
      case None
      with Inr show ?thesis
        by (simp add: stdAccountUpdate_def bind_io_def call_def throw_io_def Let_def)
    next
      case (Some acct)
      obtain r1 tr1 where l: "changes_loop i src (ia_identityId acct) pre ([], []) (tr @ [?lookup]) = (r1, tr1)"
        by (cases "changes_loop i src (ia_identityId acct) pre ([], []) (tr @ [?lookup])")
      from changes_loop_trace [OF l]
      obtain evs where e: "tr1 = (tr @ [?lookup]) @ evs" "\<forall>ev \<in> set evs. \<not> isSend ev"
        by blast
      have nosend: "\<forall>ev \<in> set (drop (length tr) tr1). \<not> isSend ev"
        using e by auto
      show ?thesis
      proof (cases r1)
        case (Inl err)
        with Inr Some l assms(1) nosend show ?thesis
          by (simp add: stdAccountUpdate_def bind_io_def call_def changes_loop_append Let_def)
      next
        case (Inr st)
        with second [OF _ l [unfolded Inr]] \<open>isc_getAccountBySource i tr (ui_identity input) (src_id src) = Inr found\<close>
          Some nosend show ?thesis by simp
      qed
    qed
  qed
  from first second show ?thesis by blast
qed

text \<open>
  The claim as stated fails on the change list Add finance-approver, Set
  finance-approver: the account lookup, the entitlement lookup and the
  submission of the grant request all precede the rejection.
\<close>

theorem set_change_after_network_calls_counterexample:
  "stdAccountUpdate iscUpdate src0 updateAddSet [] =
     (Inl (AssertionError ''Unsupported operation''),
      [Call_getAccountBySource ''alice'' ''proxy-source'',
       Call_getEntitlementbySource ''finance-approver'' ''proxy-source'',
       Call_createAccessRequest ''id-1'' [''realEntId123''] GrantAccess
         ''Proxy access request for finance-approver''])"
  by (simp add: stdAccountUpdate_def createAccessRequest_def getSourceEntitlements_def
        bind_io_def catch_io_def call_def emit_def throw_io_def return_io_def Let_def
        updateAddSet_def addFinance_def setFinance_def iscUpdate_def isc0_def src0_def
        existingAlice_def lookupFinance_def financeApprover_def idsOrEmpty_def set_add_def
        requestComment_def)

text \<open>The amended theorem on the change list Add, Set, Remove: the Remove is
  never processed.\<close>

theorem set_change_rejected_at_its_turn_witness:
  "stdAccountUpdate iscUpdate src0 updateAddSetRemove [] =
     (Inl (AssertionError ''Unsupported operation''),
      [Call_getAccountBySource ''alice'' ''proxy-source'',
       Call_getEntitlementbySource ''finance-approver'' ''proxy-source'',
       Call_createAccessRequest ''id-1'' [''realEntId123''] GrantAccess
         ''Proxy access request for finance-approver''])"
proof -
  have c: "ui_changes updateAddSetRemove = Some ([addFinance] @ setFinance # [removeFinance])"
    by (simp add: updateAddSetRemove_def)
  have s: "ch_op setFinance = OpSet" by (simp add: setFinance_def)
  have a: "isc_getAccountBySource iscUpdate [] (ui_identity updateAddSetRemove) (src_id src0)
             = Inr (Some existingAlice)"
    by (simp add: iscUpdate_def)
  have l: "changes_loop iscUpdate src0 (ia_identityId existingAlice) [addFinance] ([], [])
             ([] @ [Call_getAccountBySource (ui_identity updateAddSetRemove) (src_id src0)])
           = (Inr ([''finance-approver''], []),
              [Call_getAccountBySource ''alice'' ''proxy-source'',
               Call_getEntitlementbySource ''finance-approver'' ''proxy-source'',
               Call_createAccessRequest ''id-1'' [''realEntId123''] GrantAccess
                 ''Proxy access request for finance-approver''])"
    by (simp add: createAccessRequest_def getSourceEntitlements_def
        bind_io_def catch_io_def call_def Let_def
        updateAddSetRemove_def addFinance_def iscUpdate_def isc0_def src0_def
        existingAlice_def lookupFinance_def financeApprover_def idsOrEmpty_def set_add_def
        requestComment_def)
  from set_change_rejected_at_its_turn [OF c s, of iscUpdate src0 "[]"] a l
  show ?thesis by blast
qed

section \<open>Double resolution in create-account\<close>

text \<open>
  Claim C3, evaluated on the example of the spec. create-account for the
  proxy name finance-approver, which resolves to the id realEntId123, resolves
  the name and then hands the resolved ids to \<^verbatim>\<open>createAccessRequest\<close>,
  which resolves its argument again: realEntId123 is looked up as if it were a
  proxy name, resolves to nothing, and the one access request submitted
  carries no id at all instead of realEntId123.
\<close>

theorem stdAccountCreate_resolves_twice:
  "stdAccountCreate iscCreate src0 createFinance [] =
     (Inr (),
      [Call_getIdentityByName ''alice'',
       Call_getEntitlementbySource ''finance-approver'' ''proxy-source'',
       Call_getEntitlementbySource ''realEntId123'' ''proxy-source'',
       Call_createAccessRequest ''id-1'' [] GrantAccess ''Proxy access request for realEntId123'',
       Send (OutAccount \<lparr> acc_identity = ''alice'', acc_uuid = ''alice'', acc_id = ''alice'',
                          acc_name = ''alice'', acc_entitlements = [''finance-approver''] \<rparr>)])"
  by (simp add: stdAccountCreate_def createAccessRequest_def getSourceEntitlements_def
        bind_io_def catch_io_def call_def emit_def throw_io_def orElse_def Let_def
        iscCreate_def isc0_def src0_def createFinance_def lookupFinance_def financeApprover_def
        idsOrEmpty_def set_add_def requestComment_def)


section \<open>Proxy subsumption in the reconciliation\<close>

text \<open>
  Claim C1, evaluated on its own scenario. alice directly holds e1 and e2,
  which are all the underlying ids of the role node finance-approver, and
  also holds the proxy grant finance-approver from the proxy source. Pass 2 tests
  \<^verbatim>\<open>ids.every((x) => currentSourceEntitlements.includes(x))\<close>, which looks
  for the id strings among access-item objects and so finds none of them:
  the reported held set is the two leaf names of pass 1, without the value of
  finance-approver.
\<close>

theorem full_holding_proxy_not_reported:
  "stdAccountList iscAlice src0 [] =
     (Inr (),
      [Call_listEntitlements ''proxy-source'', Call_search ''*'' Identities,
       Send (OutAccount
         \<lparr> acc_identity = ''alice'', acc_uuid = ''alice'', acc_id = ''alice'', acc_name = ''alice'',
           acc_entitlements = [''finance-prod-approver'', ''finance-dev-approver''] \<rparr>)])"
  by (simp add: stdAccountList_def bind_io_def call_def iscAlice_def iscAccounts_def isc0_def
        src0_def roleNode_def leafProd_def leafDev_def alice_def heldSet_def orElse_def
        set_add_def entitlementMap_def js_includes_def accountOf_def)

section \<open>Failure of the requestable flip\<close>

text \<open>
  Claim C6, as amended. Within one hierarchy-build pass the requestable flip
  is attempted for an entitlement only when it is not yet requestable: a
  build loop that completes has made exactly one patch call for each
  non-requestable entitlement, in input order, and none for a requestable one.
  The flip is not guarded: when the flip of entitlement E fails, the error
  ends the whole list-entitlements operation at that call. The entitlements
  after E are not processed, and no node and no entitlement is sent.
\<close>

theorem requestable_flip_failure_aborts:
  assumes "isc_search_entitlements i tr (cfg_search cfg) = Inr (pre @ e # post)"
    and "build_loop i pre ([], [], []) (tr @ [Call_search (cfg_search cfg) Entitlements]) = (Inr st, tr1)"
    and "\<not> doc_requestable e"
    and "isc_patchEntitlement i tr1 (doc_id e) = Inl err"
  shows "stdEntitlementList i cfg src tr =
           (Inl err,
            tr @ [Call_search (cfg_search cfg) Entitlements]
               @ map (\<lambda>d. Call_patchEntitlement (doc_id d)) (filter (\<lambda>d. \<not> doc_requestable d) pre)
               @ [Call_patchEntitlement (doc_id e)])
       \<and> (\<forall>es st0 t st' t'.
             build_loop i es st0 t = (Inr st', t') \<longrightarrow>
             t' = t @ map (\<lambda>d. Call_patchEntitlement (doc_id d))
                        (filter (\<lambda>d. \<not> doc_requestable d) es))"
proof -
  let ?search = "Call_search (cfg_search cfg) Entitlements"
  have t1: "tr1 = (tr @ [?search])
              @ map (\<lambda>d. Call_patchEntitlement (doc_id d)) (filter (\<lambda>d. \<not> doc_requestable d) pre)"
    using build_loop_patches [OF assms(2)] .
  have loop: "build_loop i (pre @ e # post) ([], [], []) (tr @ [?search])
                = (Inl err, tr1 @ [Call_patchEntitlement (doc_id e)])"
    using assms(2) processEntitlement_fails [OF assms(3,4)]
    by (simp add: build_loop_append)
  obtain first others where ne: "pre @ e # post = first # others"
    by (cases "pre @ e # post") auto
  have "stdEntitlementList i cfg src tr = (Inl err, tr1 @ [Call_patchEntitlement (doc_id e)])"
    using assms(1) loop unfolding ne
    by (simp add: stdEntitlementList_def bind_io_def call_def Let_def)
  with t1 build_loop_patches show ?thesis by auto
qed

text \<open>
  The claim as stated fails on the entitlements e1, e2, both not yet
  requestable, when the flip of e1 is rejected: the operation ends with that
  error, e2 is never processed and nothing is sent.
\<close>

theorem requestable_flip_failure_counterexample:
  "stdEntitlementList iscPatchFails cfg0 src0 [] =
     (Inl (RemoteError ''patch rejected''),
      [Call_search ''privileged:true'' Entitlements, Call_patchEntitlement ''e1''])"
  by (simp add: stdEntitlementList_def bind_io_def call_def Let_def iscPatchFails_def isc0_def
        cfg0_def processEntitlement_def patchFailsE1_def docFinance_def docViewer_def)

text \<open>The amended theorem on the entitlements e3 (already requestable), e1, e2
  when the flip of e1 is rejected.\<close>

theorem requestable_flip_failure_aborts_witness:
  "stdEntitlementList iscPatchFailsSecond cfg0 src0 [] =
     (Inl (RemoteError ''patch rejected''),
      [Call_search ''privileged:true'' Entitlements, Call_patchEntitlement ''e1''])"
proof -
  have s: "isc_search_entitlements iscPatchFailsSecond [] (cfg_search cfg0)
             = Inr ([docAuditor] @ docFinance # [docViewer])"
    by (simp add: iscPatchFailsSecond_def)
  have r: "doc_requestable docAuditor" by (simp add: docAuditor_def)
  obtain st where l: "build_loop iscPatchFailsSecond [docAuditor] ([], [], [])
             ([] @ [Call_search (cfg_search cfg0) Entitlements])
           = (Inr st, [Call_search (cfg_search cfg0) Entitlements])"
    using r by (simp add: processEntitlement_def Let_def bind_io_def return_io_def)
  have n: "\<not> doc_requestable docFinance" by (simp add: docFinance_def)
  have f: "isc_patchEntitlement iscPatchFailsSecond [Call_search (cfg_search cfg0) Entitlements]
             (doc_id docFinance) = Inl (RemoteError ''patch rejected'')"
    by (simp add: iscPatchFailsSecond_def patchFailsE1_def docFinance_def)
  from requestable_flip_failure_aborts [OF s l n f, of src0] r
  show ?thesis by (simp add: cfg0_def docFinance_def)
qed


section \<open>update-account is not atomic\<close>

text \<open>
  Claim C10. update-account submits one access request per change, in order,
  and is not atomic across its change list. When the account is found, the
  changes before some change c have been processed successfully, the names of
  c resolve, and both the first submission for c and its single retry after
  the delay fail, the invocation fails with the error of the retry. By then a
  request has been submitted for every earlier change (the trace holds at
  least one submission per earlier change, and nothing removes them), and no
  account record is sent.
\<close>

theorem stdAccountUpdate_not_atomic:
  assumes "ui_changes input = Some (pre @ c # post)" and "ch_op c \<noteq> OpSet"
    and "isc_getAccountBySource i tr (ui_identity input) (src_id src) = Inr (Some acct)"
    and "changes_loop i src (ia_identityId acct) pre ([], [])
           (tr @ [Call_getAccountBySource (ui_identity input) (src_id src)]) = (Inr st, tr1)"
    and "getSourceEntitlements i src (flat1 (ch_value c)) tr1 = (Inr ids, tr2)"
    and "submit = Call_createAccessRequest (ia_identityId acct) ids
                    (if ch_op c = OpAdd then GrantAccess else RevokeAccess)
                    (requestComment (flat1 (ch_value c)))"
    and "isc_createAccessRequest i tr2 (ia_identityId acct) ids
           (if ch_op c = OpAdd then GrantAccess else RevokeAccess)
           (requestComment (flat1 (ch_value c))) = Inl err1"
    and "isc_createAccessRequest i (tr2 @ [submit, Sleep 60000]) (ia_identityId acct) ids
           (if ch_op c = OpAdd then GrantAccess else RevokeAccess)
           (requestComment (flat1 (ch_value c))) = Inl err2"
  shows "stdAccountUpdate i src input tr = (Inl err2, tr2 @ [submit, Sleep 60000, submit])
       \<and> (\<exists>evs1 evs2.
             tr1 = tr @ [Call_getAccountBySource (ui_identity input) (src_id src)] @ evs1
           \<and> tr2 = tr1 @ evs2
           \<and> length pre \<le> length (filter isSubmission evs1)
           \<and> (\<forall>ev \<in> set (evs1 @ evs2 @ [submit, Sleep 60000, submit]). \<not> isSend ev))"
proof -
  let ?lookup = "Call_getAccountBySource (ui_identity input) (src_id src)"
  let ?op = "if ch_op c = OpAdd then GrantAccess else RevokeAccess"
  from changes_loop_trace [OF assms(4)]
  obtain evs1 where e1: "tr1 = (tr @ [?lookup]) @ evs1" "\<forall>ev \<in> set evs1. \<not> isSend ev"
      "length pre \<le> length (filter isSubmission evs1)"
    by blast
  from getSourceEntitlements_loop_trace [OF assms(5) [unfolded getSourceEntitlements_def]]
  obtain evs2 where e2: "tr2 = tr1 @ evs2" "\<forall>ev \<in> set evs2. \<not> isSend ev"
    by blast
  have car: "createAccessRequest i src (ia_identityId acct) (flat1 (ch_value c)) ?op tr1
               = (Inl err2, tr2 @ [submit, Sleep 60000, submit])"
    using createAccessRequest_cases [where i=i and src=src and entitlements="flat1 (ch_value c)"
        and tr=tr1 and identity="ia_identityId acct" and requestType="?op"]
      assms(5,6,7,8)
    by (simp add: Let_def)
  have step: "changes_loop i src (ia_identityId acct) (c # post) st tr1
                = (Inl err2, tr2 @ [submit, Sleep 60000, submit])"
    using assms(2) car by (cases st) (simp add: Let_def)
  have res: "stdAccountUpdate i src input tr = (Inl err2, tr2 @ [submit, Sleep 60000, submit])"
    using assms(1,3,4) step
    by (simp add: stdAccountUpdate_def bind_io_def call_def changes_loop_append Let_def)
  have s: "\<not> isSend submit" using assms(6) by simp
  have "\<exists>evs1 evs2.
             tr1 = tr @ [?lookup] @ evs1
           \<and> tr2 = tr1 @ evs2
           \<and> length pre \<le> length (filter isSubmission evs1)
           \<and> (\<forall>ev \<in> set (evs1 @ evs2 @ [submit, Sleep 60000, submit]). \<not> isSend ev)"
    using e1 e2 s
    by (intro exI [of _ evs1] exI [of _ evs2]) auto
  with res show ?thesis by blast
qed

text \<open>The theorem on the change list Add finance-approver, Remove
  finance-approver on a platform that rejects every revoke request: the grant
  request stays submitted.\<close>

theorem stdAccountUpdate_not_atomic_witness:
  "stdAccountUpdate iscRevokeFails src0 updateAddRemove [] =
     (Inl (RemoteError ''rejected''),
      [Call_getAccountBySource ''alice'' ''proxy-source'',
       Call_getEntitlementbySource ''finance-approver'' ''proxy-source'',
       Call_createAccessRequest ''id-1'' [''realEntId123''] GrantAccess
         ''Proxy access request for finance-approver'',
       Call_getEntitlementbySource ''finance-approver'' ''proxy-source'',
       Call_createAccessRequest ''id-1'' [''realEntId123''] RevokeAccess
         ''Proxy access request for finance-approver'',
       Sleep 60000,
       Call_createAccessRequest ''id-1'' [''realEntId123''] RevokeAccess
         ''Proxy access request for finance-approver''])"
proof -
  let ?t1 = "[Call_getAccountBySource ''alice'' ''proxy-source'',
       Call_getEntitlementbySource ''finance-approver'' ''proxy-source'',
       Call_createAccessRequest ''id-1'' [''realEntId123''] GrantAccess
         ''Proxy access request for finance-approver'']"
  let ?t2 = "?t1 @ [Call_getEntitlementbySource ''finance-approver'' ''proxy-source'']"
  let ?submit = "Call_createAccessRequest ''id-1'' [''realEntId123''] RevokeAccess
         ''Proxy access request for finance-approver''"
  have c: "ui_changes updateAddRemove = Some ([addFinance] @ removeFinance # [])"
    by (simp add: updateAddRemove_def)
  have n: "ch_op removeFinance \<noteq> OpSet" by (simp add: removeFinance_def)
  have a: "isc_getAccountBySource iscRevokeFails [] (ui_identity updateAddRemove) (src_id src0)
             = Inr (Some existingAlice)"
    by (simp add: iscRevokeFails_def iscUpdate_def)
  have l: "changes_loop iscRevokeFails src0 (ia_identityId existingAlice) [addFinance] ([], [])
             ([] @ [Call_getAccountBySource (ui_identity updateAddRemove) (src_id src0)])
           = (Inr ([''finance-approver''], []), ?t1)"
    by (simp add: createAccessRequest_def getSourceEntitlements_def
        bind_io_def catch_io_def call_def Let_def
        updateAddRemove_def addFinance_def iscRevokeFails_def iscUpdate_def isc0_def src0_def
        existingAlice_def lookupFinance_def financeApprover_def idsOrEmpty_def set_add_def
        requestComment_def)
  have g: "getSourceEntitlements iscRevokeFails src0 (flat1 (ch_value removeFinance)) ?t1
             = (Inr [''realEntId123''], ?t2)"
    by (simp add: getSourceEntitlements_def call_def removeFinance_def iscRevokeFails_def
        iscUpdate_def isc0_def src0_def lookupFinance_def financeApprover_def idsOrEmpty_def
        set_add_def)
  have sub: "?submit = Call_createAccessRequest (ia_identityId existingAlice) [''realEntId123'']
                    (if ch_op removeFinance = OpAdd then GrantAccess else RevokeAccess)
                    (requestComment (flat1 (ch_value removeFinance)))"
    by (simp add: existingAlice_def removeFinance_def requestComment_def)
  have f1: "isc_createAccessRequest iscRevokeFails ?t2 (ia_identityId existingAlice) [''realEntId123'']
           (if ch_op removeFinance = OpAdd then GrantAccess else RevokeAccess)
           (requestComment (flat1 (ch_value removeFinance))) = Inl (RemoteError ''rejected'')"
    by (simp add: iscRevokeFails_def removeFinance_def)
  have f2: "isc_createAccessRequest iscRevokeFails (?t2 @ [?submit, Sleep 60000])
           (ia_identityId existingAlice) [''realEntId123'']
           (if ch_op removeFinance = OpAdd then GrantAccess else RevokeAccess)
           (requestComment (flat1 (ch_value removeFinance))) = Inl (RemoteError ''rejected'')"
    by (simp add: iscRevokeFails_def removeFinance_def)
  from stdAccountUpdate_not_atomic [OF c n a l g sub f1 f2]
  show ?thesis by simp
qed

end
